theory Spec2Isabelle
  imports Main "HOL-Library.Word" "HOL-Library.Signed_Division"
begin

section \<open>Machine integers and errors\<close>

text \<open>
  Go's \<open>int64\<close> is a 64-bit word: \<open>+\<close> and \<open>-\<close> wrap around, the comparisons of
  the source are the signed ones (\<open><s\<close>, \<open>\<le>s\<close>), and \<open>/\<close> truncates towards zero.
\<close>

type_synonym int64 = "64 word"
type_synonym int32 = "32 word"

text \<open>Go's \<open>a / b\<close> on \<open>int64\<close> for a non-zero constant divisor.\<close>

definition go_div64 :: "int64 \<Rightarrow> int64 \<Rightarrow> int64" where
  "go_div64 a b = word_of_int (sint a sdiv sint b)"

text \<open>A non-nil Go \<open>error\<close> value; \<open>Inl e\<close> is the return \<open>(nil, e)\<close>.\<close>

datatype error = Error string

section \<open>The in-memory heartbeat checker (package heartbeatmemory)\<close>

text \<open>
  The log calls of the source change nothing that a caller can read and are left out.
  \<open>sync.Map\<close> is a map from instance id to record; \<open>commontime.CurrentMillisecond()\<close>
  reads the wall clock, and the value it returns at a call is the argument \<open>nowMilli\<close>
  of the function that makes the call.
\<close>

record HeartbeatRecord =
  Server :: string
  CurTimeSec :: int64
  Count :: int64

record MemoryHealthChecker =
  hbRecords :: "string \<rightharpoonup> HeartbeatRecord"
  suspendTimeSec :: int64

text \<open>
  The request and response types of package \<open>plugin\<close>, with the fields the sources read
  or write. \<open>CheckRequest\<close> embeds \<open>QueryRequest\<close>. \<open>ExpireDurationSec\<close> holds
  \<open>int64(request.ExpireDurationSec)\<close>, the only form in which the checker reads that
  field; \<open>reqCurTimeSec\<close> holds the value of the call \<open>request.CurTimeSec()\<close>.
\<close>

record ReportRequest =
  rep_InstanceId :: string
  LocalHost :: string
  rep_CurTimeSec :: int64
  rep_Count :: int64

record QueryRequest =
  InstanceId :: string
  Healthy :: bool

record CheckRequest = QueryRequest +
  ExpireDurationSec :: int64
  reqCurTimeSec :: int64

record QueryResponse =
  qr_Server :: string
  LastHeartbeatSec :: int64
  qr_Count :: int64
  Exists :: bool

record CheckResponse =
  resp_Healthy :: bool
  LastHeartbeatTimeSec :: int64
  StayUnchanged :: bool

definition Initialize :: "MemoryHealthChecker \<Rightarrow> MemoryHealthChecker" where
  "Initialize r = r\<lparr>hbRecords := Map.empty\<rparr>"

definition Report :: "MemoryHealthChecker \<Rightarrow> ReportRequest \<Rightarrow> MemoryHealthChecker" where
  "Report r request =
     (let record = \<lparr>Server = LocalHost request, CurTimeSec = rep_CurTimeSec request,
                     Count = rep_Count request\<rparr>
      in r\<lparr>hbRecords := (hbRecords r)(rep_InstanceId request \<mapsto> record)\<rparr>)"

definition Query :: "MemoryHealthChecker \<Rightarrow> 'a QueryRequest_scheme \<Rightarrow> error + QueryResponse" where
  "Query r request =
     (case hbRecords r (InstanceId request) of
        None \<Rightarrow> Inr \<lparr>qr_Server = [], LastHeartbeatSec = 0, qr_Count = 0, Exists = False\<rparr>
      | Some record \<Rightarrow>
          Inr \<lparr>qr_Server = Server record, LastHeartbeatSec = CurTimeSec record,
               qr_Count = Count record, Exists = False\<rparr>)"

definition SuspendTimeSec :: "MemoryHealthChecker \<Rightarrow> int64" where
  "SuspendTimeSec r = suspendTimeSec r"

definition skipCheck :: "MemoryHealthChecker \<Rightarrow> string \<Rightarrow> int64 \<Rightarrow> int64 \<Rightarrow> bool" where
  "skipCheck r instanceId expireDurationSec nowMilli =
     (let suspendTimeSec = SuspendTimeSec r;
          localCurTimeSec = go_div64 nowMilli 1000
      in if 0 <s suspendTimeSec \<and> suspendTimeSec \<le>s localCurTimeSec
            \<and> localCurTimeSec - suspendTimeSec <s expireDurationSec
         then True
         else False)"

definition Check :: "MemoryHealthChecker \<Rightarrow> CheckRequest \<Rightarrow> int64 \<Rightarrow> error + CheckResponse" where
  "Check r request nowMilli =
     (case Query r request of
        Inl err \<Rightarrow> Inl err
      | Inr queryResp \<Rightarrow>
          (let lastHeartbeatTime = LastHeartbeatSec queryResp;
               checkResp = \<lparr>resp_Healthy = False, LastHeartbeatTimeSec = lastHeartbeatTime,
                            StayUnchanged = False\<rparr>;
               curTimeSec = reqCurTimeSec request
           in if skipCheck r (InstanceId request) (ExpireDurationSec request) nowMilli
              then Inr (checkResp\<lparr>StayUnchanged := True\<rparr>)
              else if lastHeartbeatTime <s curTimeSec
                      \<and> ExpireDurationSec request \<le>s curTimeSec - lastHeartbeatTime
              then (if Healthy request
                    then Inr (checkResp\<lparr>resp_Healthy := False\<rparr>)
                    else Inr (checkResp\<lparr>resp_Healthy := False, StayUnchanged := True\<rparr>))
              else (if \<not> Healthy request
                    then Inr (checkResp\<lparr>resp_Healthy := True\<rparr>)
                    else Inr (checkResp\<lparr>resp_Healthy := True, StayUnchanged := True\<rparr>))))"

definition Delete :: "MemoryHealthChecker \<Rightarrow> string \<Rightarrow> MemoryHealthChecker" where
  "Delete r id' = r\<lparr>hbRecords := (hbRecords r)(id' := None)\<rparr>"

definition Suspend :: "MemoryHealthChecker \<Rightarrow> int64 \<Rightarrow> MemoryHealthChecker" where
  "Suspend r nowMilli =
     (let curTimeMilli = go_div64 nowMilli 1000
      in r\<lparr>suspendTimeSec := curTimeMilli\<rparr>)"

text \<open>The last heartbeat time \<open>Check\<close> works with: the stored record's, 0 when there is none.\<close>

definition lastOf :: "MemoryHealthChecker \<Rightarrow> string \<Rightarrow> int64" where
  "lastOf r i = (case hbRecords r i of None \<Rightarrow> 0 | Some record \<Rightarrow> CurTimeSec record)"

text \<open>
  What the caller of \<open>Check\<close> holds as the instance's health after a response: the
  response's \<open>Healthy\<close> unless the response says the health stays unchanged.
\<close>

definition nextHealthy :: "bool \<Rightarrow> CheckResponse \<Rightarrow> bool" where
  "nextHealthy prior resp = (if StayUnchanged resp then prior else resp_Healthy resp)"

subsection \<open>Scenarios\<close>

text \<open>
  A checker that has received one report for instance \<open>i\<close> with heartbeat time
  \<open>lastSec\<close>, a check request for \<open>i\<close>, and a checker suspended at second 1000.
\<close>

definition S_checker :: "int64 \<Rightarrow> MemoryHealthChecker" where
  "S_checker lastSec =
     Report (Initialize \<lparr>hbRecords = Map.empty, suspendTimeSec = 0\<rparr>)
       \<lparr>rep_InstanceId = ''i'', LocalHost = ''srv'', rep_CurTimeSec = lastSec, rep_Count = 1\<rparr>"

definition S_request :: "bool \<Rightarrow> int64 \<Rightarrow> int64 \<Rightarrow> CheckRequest" where
  "S_request healthy cur expire =
     \<lparr>InstanceId = ''i'', Healthy = healthy, ExpireDurationSec = expire, reqCurTimeSec = cur\<rparr>"

definition S5_checker :: MemoryHealthChecker where
  "S5_checker = Suspend (Initialize \<lparr>hbRecords = Map.empty, suspendTimeSec = 0\<rparr>) 1000000"

section \<open>The heartbeat RPCs of the discover server (package v1)\<close>

text \<open>
  The messages of the \<open>apiservice\<close> package, with the fields the sources read or write.
  A slice of message pointers is a list of options, \<open>None\<close> being a nil pointer; a
  request or response pointer is an option too, and the generated getters
  (\<open>GetInstanceIds\<close>, \<open>GetRecords\<close>) answer a nil receiver with the empty slice.
\<close>

record api_HeartbeatRecord =
  hr_InstanceId :: string
  hr_LastHeartbeatSec :: int64
  hr_Exist :: bool

record GetHeartbeatsRequest =
  get_InstanceIds :: "string list"

record GetHeartbeatsResponse =
  Records :: "api_HeartbeatRecord option list"

record DelHeartbeatsRequest =
  del_InstanceIds :: "string list"

datatype DelHeartbeatsResponse = DelHeartbeatsResponse

definition GetInstanceIds :: "GetHeartbeatsRequest option \<Rightarrow> string list" where
  "GetInstanceIds req = (case req of None \<Rightarrow> [] | Some x \<Rightarrow> get_InstanceIds x)"

definition GetRecords :: "GetHeartbeatsResponse option \<Rightarrow> api_HeartbeatRecord option list" where
  "GetRecords resp = (case resp of None \<Rightarrow> [] | Some x \<Rightarrow> Records x)"

definition del_GetInstanceIds :: "DelHeartbeatsRequest option \<Rightarrow> string list" where
  "del_GetInstanceIds req = (case req of None \<Rightarrow> [] | Some x \<Rightarrow> del_InstanceIds x)"

text \<open>
  \<open>plugin.HealthChecker\<close> is an interface; the two methods the RPCs call act on the
  state \<open>'s\<close> behind the checker, which every call may change. \<open>hc_Query\<close> returns
  \<open>Inl err\<close> for a non-nil error and \<open>Inr resp\<close> for a response with a nil error;
  \<open>hc_Delete\<close> returns the error, \<open>None\<close> being nil.
\<close>

record 's HealthChecker =
  hc_Query :: "QueryRequest \<Rightarrow> 's \<Rightarrow> (error + QueryResponse) \<times> 's"
  hc_Delete :: "string \<Rightarrow> 's \<Rightarrow> error option \<times> 's"

text \<open>
  Of the server, the RPCs read \<open>g.healthCheckServer.Checkers()\<close>, a map from check
  type to checker. The number of \<open>apiservice.HealthCheck_HEARTBEAT\<close> is declared
  outside the sources and is the argument \<open>heartbeat\<close> of both RPCs.
\<close>

record 's DiscoverServer =
  Checkers :: "int32 \<rightharpoonup> 's HealthChecker"

text \<open>The loop of \<open>BatchGetHeartbeat\<close> over \<open>keys\<close>, with the slice \<open>records\<close> built so far.\<close>

fun BatchGetHeartbeat_loop ::
  "'s HealthChecker \<Rightarrow> string list \<Rightarrow> api_HeartbeatRecord option list \<Rightarrow> 's
    \<Rightarrow> (error + api_HeartbeatRecord option list) \<times> 's" where
  "BatchGetHeartbeat_loop checker [] records s = (Inr records, s)"
| "BatchGetHeartbeat_loop checker (key # keys) records s =
     (case hc_Query checker \<lparr>InstanceId = key, Healthy = False\<rparr> s of
        (Inl err, s') \<Rightarrow> (Inl err, s')
      | (Inr resp, s') \<Rightarrow>
          (let record = \<lparr>hr_InstanceId = key, hr_LastHeartbeatSec = LastHeartbeatSec resp,
                          hr_Exist = Exists resp\<rparr>
           in BatchGetHeartbeat_loop checker keys (records @ [Some record]) s'))"

definition BatchGetHeartbeat ::
  "int32 \<Rightarrow> 's DiscoverServer \<Rightarrow> GetHeartbeatsRequest option \<Rightarrow> 's
    \<Rightarrow> (error + GetHeartbeatsResponse) \<times> 's" where
  "BatchGetHeartbeat heartbeat g req s =
     (case Checkers g heartbeat of
        None \<Rightarrow> (Inr \<lparr>Records = []\<rparr>, s)
      | Some checker \<Rightarrow>
          (case BatchGetHeartbeat_loop checker (GetInstanceIds req) [] s of
             (Inl err, s') \<Rightarrow> (Inl err, s')
           | (Inr records, s') \<Rightarrow> (Inr \<lparr>Records = records\<rparr>, s')))"

fun BatchDelHeartbeat_loop ::
  "'s HealthChecker \<Rightarrow> string list \<Rightarrow> 's \<Rightarrow> (error + DelHeartbeatsResponse) \<times> 's" where
  "BatchDelHeartbeat_loop checker [] s = (Inr DelHeartbeatsResponse, s)"
| "BatchDelHeartbeat_loop checker (key # keys) s =
     (case hc_Delete checker key s of
        (Some err, s') \<Rightarrow> (Inl err, s')
      | (None, s') \<Rightarrow> BatchDelHeartbeat_loop checker keys s')"

definition BatchDelHeartbeat ::
  "int32 \<Rightarrow> 's DiscoverServer \<Rightarrow> DelHeartbeatsRequest option \<Rightarrow> 's
    \<Rightarrow> (error + DelHeartbeatsResponse) \<times> 's" where
  "BatchDelHeartbeat heartbeat g req s =
     (case Checkers g heartbeat of
        None \<Rightarrow> (Inr DelHeartbeatsResponse, s)
      | Some checker \<Rightarrow> BatchDelHeartbeat_loop checker (del_GetInstanceIds req) s)"

text \<open>
  The state a batch has reached when every call on the ids \<open>keys\<close> has returned a nil
  error; \<open>None\<close> when one of them has not.
\<close>

fun queries_succeed :: "'s HealthChecker \<Rightarrow> string list \<Rightarrow> 's \<Rightarrow> 's option" where
  "queries_succeed checker [] s = Some s"
| "queries_succeed checker (key # keys) s =
     (case hc_Query checker \<lparr>InstanceId = key, Healthy = False\<rparr> s of
        (Inl err, s') \<Rightarrow> None
      | (Inr resp, s') \<Rightarrow> queries_succeed checker keys s')"

fun deletes_succeed :: "'s HealthChecker \<Rightarrow> string list \<Rightarrow> 's \<Rightarrow> 's option" where
  "deletes_succeed checker [] s = Some s"
| "deletes_succeed checker (key # keys) s =
     (case hc_Delete checker key s of
        (Some err, s') \<Rightarrow> None
      | (None, s') \<Rightarrow> deletes_succeed checker keys s')"

text \<open>The in-memory checker behind the interface: its state is the checker itself.\<close>

definition MemoryHealthChecker_plugin :: "MemoryHealthChecker HealthChecker" where
  "MemoryHealthChecker_plugin =
     \<lparr>hc_Query = (\<lambda>request r. (Query r request, r)),
      hc_Delete = (\<lambda>id' r. (None, Delete r id'))\<rparr>"

text \<open>A checker whose queries fail on instance \<open>bad\<close> only, and a server that registers it.\<close>

definition failing_checker :: "MemoryHealthChecker HealthChecker" where
  "failing_checker =
     \<lparr>hc_Query = (\<lambda>request r.
         if InstanceId request = ''bad'' then (Inl (Error ''query failed''), r)
         else (Query r request, r)),
      hc_Delete = (\<lambda>id' r.
         if id' = ''bad'' then (Some (Error ''delete failed''), r) else (None, Delete r id'))\<rparr>"

definition S_server :: "MemoryHealthChecker HealthChecker \<Rightarrow> MemoryHealthChecker DiscoverServer" where
  "S_server checker = \<lparr>Checkers = [1 \<mapsto> checker]\<rparr>"

section \<open>The maintenance job runner (package job)\<close>











section \<open>The beat record caches (package leader)\<close>

record RecordValue =
  rv_Server :: string
  rv_CurTimeSec :: int64
  rv_Count :: int64

record ReadBeatRecord =
  Record :: RecordValue
  Exist :: bool

record WriteBeatRecord =
  wr_Record :: RecordValue
  Key :: string

text \<open>Go's zero value of \<open>RecordValue\<close>.\<close>

definition RecordValue_zero :: RecordValue where
  "RecordValue_zero = \<lparr>rv_Server = [], rv_CurTimeSec = 0, rv_Count = 0\<rparr>"

subsection \<open>SegmentMap\<close>

text \<open>
  Modelled from the spec: \<open>utils.SegmentMap\<close> is not among the sources. The spec
  describes it as a fixed-size array of \<open>N\<close> shards, each shard a mapping, a key living
  in shard \<open>hash(key) mod N\<close>; \<open>Get\<close> returns the zero value and false on a miss,
  \<open>Put\<close> inserts or overwrites, \<open>Del\<close> returns whether the key existed. The locks
  are left out. The cache instantiates it at keys \<open>string\<close> and values \<open>RecordValue\<close>.
\<close>

record SegmentMap =
  shard_count :: nat
  hash_fn :: "string \<Rightarrow> int"
  shards :: "nat \<Rightarrow> (string \<rightharpoonup> RecordValue)"

definition NewSegmentMap :: "nat \<Rightarrow> (string \<Rightarrow> int) \<Rightarrow> SegmentMap" where
  "NewSegmentMap n h = \<lparr>shard_count = n, hash_fn = h, shards = (\<lambda>i. Map.empty)\<rparr>"

definition shard_of :: "SegmentMap \<Rightarrow> string \<Rightarrow> nat" where
  "shard_of m k = nat (hash_fn m k mod int (shard_count m))"

definition SegmentMap_Get :: "SegmentMap \<Rightarrow> string \<Rightarrow> RecordValue \<times> bool" where
  "SegmentMap_Get m k =
     (case shards m (shard_of m k) k of
        None \<Rightarrow> (RecordValue_zero, False)
      | Some v \<Rightarrow> (v, True))"

definition SegmentMap_Put :: "SegmentMap \<Rightarrow> string \<Rightarrow> RecordValue \<Rightarrow> SegmentMap" where
  "SegmentMap_Put m k v =
     m\<lparr>shards := (shards m)(shard_of m k := (shards m (shard_of m k))(k \<mapsto> v))\<rparr>"

definition SegmentMap_Del :: "SegmentMap \<Rightarrow> string \<Rightarrow> bool \<times> SegmentMap" where
  "SegmentMap_Del m k =
     (shards m (shard_of m k) k \<noteq> None,
      m\<lparr>shards := (shards m)(shard_of m k := (shards m (shard_of m k))(k := None))\<rparr>)"

subsection \<open>LocalBeatRecordCache\<close>

text \<open>
  The result of \<open>Get\<close> is a Go map from key to a pointer to a fresh \<open>ReadBeatRecord\<close>;
  no two keys share a pointer, so the map holds the records themselves.
\<close>

record LocalBeatRecordCache =
  soltNum :: int32
  hashFunc :: "string \<Rightarrow> int"
  beatCache :: SegmentMap

text \<open>
  \<open>DefaultSoltNum\<close> is declared outside the sources and is the first argument of the
  constructor.
\<close>

definition newLocalBeatRecordCache :: "int32 \<Rightarrow> int32 \<Rightarrow> (string \<Rightarrow> int) \<Rightarrow> LocalBeatRecordCache" where
  "newLocalBeatRecordCache DefaultSoltNum soltNum' hashFunc' =
     (let soltNum' = (if soltNum' = 0 then DefaultSoltNum else soltNum')
      in \<lparr>soltNum = soltNum', hashFunc = hashFunc',
          beatCache = NewSegmentMap (nat (sint soltNum')) (\<lambda>k. hashFunc' k)\<rparr>)"

fun LocalBeatRecordCache_Get_loop ::
  "LocalBeatRecordCache \<Rightarrow> string list \<Rightarrow> (string \<rightharpoonup> ReadBeatRecord) \<Rightarrow> (string \<rightharpoonup> ReadBeatRecord)" where
  "LocalBeatRecordCache_Get_loop lc [] ret = ret"
| "LocalBeatRecordCache_Get_loop lc (key # keys) ret =
     (case SegmentMap_Get (beatCache lc) key of
        (val, ok) \<Rightarrow>
          LocalBeatRecordCache_Get_loop lc keys (ret(key \<mapsto> \<lparr>Record = val, Exist = ok\<rparr>)))"

definition LocalBeatRecordCache_Get ::
  "LocalBeatRecordCache \<Rightarrow> string list \<Rightarrow> (string \<rightharpoonup> ReadBeatRecord)" where
  "LocalBeatRecordCache_Get lc keys = LocalBeatRecordCache_Get_loop lc keys Map.empty"

fun LocalBeatRecordCache_Put :: "LocalBeatRecordCache \<Rightarrow> WriteBeatRecord list \<Rightarrow> LocalBeatRecordCache" where
  "LocalBeatRecordCache_Put lc [] = lc"
| "LocalBeatRecordCache_Put lc (record # records) =
     LocalBeatRecordCache_Put
       (lc\<lparr>beatCache := SegmentMap_Put (beatCache lc) (Key record) (wr_Record record)\<rparr>) records"

fun LocalBeatRecordCache_Del :: "LocalBeatRecordCache \<Rightarrow> string list \<Rightarrow> LocalBeatRecordCache" where
  "LocalBeatRecordCache_Del lc [] = lc"
| "LocalBeatRecordCache_Del lc (key # keys) =
     (case SegmentMap_Del (beatCache lc) key of
        (ok, m) \<Rightarrow> LocalBeatRecordCache_Del (lc\<lparr>beatCache := m\<rparr>) keys)"

subsection \<open>RemoteBeatRecordCache\<close>

text \<open>
  The messages sent to the saver, with the one field the source sets; the composite
  literal leaves every other field of \<open>InstanceHeartbeat\<close> at its zero value.
\<close>

record InstanceHeartbeat =
  ih_InstanceId :: string

record HeartbeatsRequest =
  Heartbeats :: "InstanceHeartbeat option list"

text \<open>
  The three callables act on the world \<open>'w\<close> of the owning peer; the getter returns a
  response pointer, which may be nil.
\<close>

record 'w RemoteBeatRecordCache =
  saver :: "HeartbeatsRequest \<Rightarrow> 'w \<Rightarrow> 'w"
  delter :: "DelHeartbeatsRequest \<Rightarrow> 'w \<Rightarrow> 'w"
  getter :: "GetHeartbeatsRequest \<Rightarrow> 'w \<Rightarrow> GetHeartbeatsResponse option \<times> 'w"

datatype panic = NilPointerDereference

text \<open>The first loop of \<open>Get\<close>: an entry with \<open>Exist\<close> false for every key.\<close>

fun RemoteBeatRecordCache_Get_init ::
  "string list \<Rightarrow> (string \<rightharpoonup> ReadBeatRecord) \<Rightarrow> (string \<rightharpoonup> ReadBeatRecord)" where
  "RemoteBeatRecordCache_Get_init [] ret = ret"
| "RemoteBeatRecordCache_Get_init (key # keys) ret =
     RemoteBeatRecordCache_Get_init keys (ret(key \<mapsto> \<lparr>Record = RecordValue_zero, Exist = False\<rparr>))"

text \<open>
  The second loop, over the records of the response. \<open>record.InstanceId\<close> reads through
  the record pointer, and on a lookup miss \<open>val\<close> is the nil pointer of the map's value
  type, through which \<open>val.Exist = false\<close> writes: both are nil dereferences.
\<close>

fun RemoteBeatRecordCache_Get_loop ::
  "api_HeartbeatRecord option list \<Rightarrow> (string \<rightharpoonup> ReadBeatRecord)
    \<Rightarrow> panic + (string \<rightharpoonup> ReadBeatRecord)" where
  "RemoteBeatRecordCache_Get_loop [] ret = Inr ret"
| "RemoteBeatRecordCache_Get_loop (None # records) ret = Inl NilPointerDereference"
| "RemoteBeatRecordCache_Get_loop (Some record # records) ret =
     (case ret (hr_InstanceId record) of
        None \<Rightarrow> Inl NilPointerDereference
      | Some val \<Rightarrow>
          RemoteBeatRecordCache_Get_loop records
            (ret(hr_InstanceId record \<mapsto>
               val\<lparr>Exist := hr_Exist record,
                   Record := \<lparr>rv_Server = [], rv_CurTimeSec = hr_LastHeartbeatSec record,
                              rv_Count = 0\<rparr>\<rparr>)))"

definition RemoteBeatRecordCache_Get ::
  "'w RemoteBeatRecordCache \<Rightarrow> string list \<Rightarrow> 'w \<Rightarrow> (panic + (string \<rightharpoonup> ReadBeatRecord)) \<times> 'w" where
  "RemoteBeatRecordCache_Get rc keys w =
     (let ret = RemoteBeatRecordCache_Get_init keys Map.empty;
          (resp, w') = getter rc \<lparr>get_InstanceIds = keys\<rparr> w;
          records = GetRecords resp
      in (RemoteBeatRecordCache_Get_loop records ret, w'))"

text \<open>The loop of \<open>Put\<close>, appending one entry per record to \<open>req.Heartbeats\<close>.\<close>

fun RemoteBeatRecordCache_Put_loop :: "WriteBeatRecord list \<Rightarrow> HeartbeatsRequest \<Rightarrow> HeartbeatsRequest" where
  "RemoteBeatRecordCache_Put_loop [] req = req"
| "RemoteBeatRecordCache_Put_loop (record # records) req =
     RemoteBeatRecordCache_Put_loop records
       (req\<lparr>Heartbeats := Heartbeats req @ [Some \<lparr>ih_InstanceId = Key record\<rparr>]\<rparr>)"

definition RemoteBeatRecordCache_Put :: "'w RemoteBeatRecordCache \<Rightarrow> WriteBeatRecord list \<Rightarrow> 'w \<Rightarrow> 'w" where
  "RemoteBeatRecordCache_Put rc records w =
     (let req = RemoteBeatRecordCache_Put_loop records \<lparr>Heartbeats = []\<rparr>
      in saver rc req w)"

definition RemoteBeatRecordCache_Del :: "'w RemoteBeatRecordCache \<Rightarrow> string list \<Rightarrow> 'w \<Rightarrow> 'w" where
  "RemoteBeatRecordCache_Del rc key w = delter rc \<lparr>del_InstanceIds = key\<rparr> w"

text \<open>
  A remote cache whose world is the list of requests its saver has received, and whose
  getter answers with a fixed response.
\<close>

definition recording_cache :: "GetHeartbeatsResponse option \<Rightarrow> HeartbeatsRequest list RemoteBeatRecordCache" where
  "recording_cache resp =
     \<lparr>saver = (\<lambda>req w. w @ [req]), delter = (\<lambda>req w. w), getter = (\<lambda>req w. (resp, w))\<rparr>"

section \<open>Properties of the heartbeat checker\<close>

lemma sint_bounds64:
  fixes a :: int64
  shows "- (2 ^ 63) \<le> sint a" and "sint a < 2 ^ 63"
  using sint_ge [of a] sint_lt [of a] by simp_all

lemma sint_sub_no_overflow:
  fixes a b :: int64
  assumes "- (2 ^ 63) \<le> sint a - sint b" and "sint a - sint b < 2 ^ 63"
  shows "sint (a - b) = sint a - sint b"
  using assms by (simp add: sint_word_ariths signed_take_bit_int_eq_self)

lemma sint_word_of_int64:
  assumes "- (2 ^ 63) \<le> (k::int)" and "k < 2 ^ 63"
  shows "sint (word_of_int k :: int64) = k"
proof -
  have "sint (word_of_int k :: int64) = signed_take_bit 63 k"
    by (simp add: sint_sbintrunc')
  also have "\<dots> = k"
    using assms by (rule signed_take_bit_int_eq_self)
  finally show ?thesis .
qed

lemma sdiv_1000_bounds:
  "- (2 ^ 63) \<le> (k::int) \<Longrightarrow> k < 2 ^ 63 \<Longrightarrow> - (2 ^ 63) \<le> k sdiv 1000 \<and> k sdiv 1000 < 2 ^ 63"
  by (auto simp: signed_divide_int_def sgn_if)

text \<open>Dividing by 1000 cannot overflow: the word result is the truncated integer quotient.\<close>

lemma sint_go_div64_1000: "sint (go_div64 a 1000) = sint a sdiv 1000"
proof -
  have "- (2 ^ 63) \<le> sint a sdiv 1000 \<and> sint a sdiv 1000 < 2 ^ 63"
    using sdiv_1000_bounds sint_bounds64 by blast
  then have "sint (word_of_int (sint a sdiv 1000) :: int64) = sint a sdiv 1000"
    using sint_word_of_int64 by blast
  then show ?thesis
    by (simp add: go_div64_def)
qed

text \<open>
  Inside \<open>skipCheck\<close> the subtraction is guarded by \<open>0 < suspend \<le> now\<close>, so it cannot
  wrap, and the test reads the same over the integers.
\<close>

lemma skipCheck_int:
  "skipCheck r i E nowMilli \<longleftrightarrow>
     0 < sint (SuspendTimeSec r) \<and> sint (SuspendTimeSec r) \<le> sint nowMilli sdiv 1000
     \<and> sint nowMilli sdiv 1000 - sint (SuspendTimeSec r) < sint E"
proof -
  let ?s = "SuspendTimeSec r" and ?n = "go_div64 nowMilli 1000"
  have sub: "sint (?n - ?s) = sint ?n - sint ?s" if "0 < sint ?s" "sint ?s \<le> sint ?n"
    using that sint_bounds64 [of ?n] sint_bounds64 [of ?s]
    by (intro sint_sub_no_overflow) linarith+
  show ?thesis
    using sub
    by (auto simp: skipCheck_def Let_def word_sless_alt word_sle_eq sint_go_div64_1000)
qed

lemma Query_last: "Query r request = Inr q \<Longrightarrow> LastHeartbeatSec q = lastOf r (InstanceId request)"
  by (auto simp: Query_def lastOf_def split: option.splits)

lemma Query_total: "\<exists>q. Query r request = Inr q"
  by (simp add: Query_def split: option.splits)

text \<open>
  \<open>Check\<close> never fails, and its response is a function of three tests: whether the
  checker is suspended, whether the heartbeat has expired, and the prior health.
\<close>

lemma Check_cases:
  "Check r request nowMilli =
     Inr \<lparr>resp_Healthy =
            (\<not> skipCheck r (InstanceId request) (ExpireDurationSec request) nowMilli
             \<and> \<not> (lastOf r (InstanceId request) <s reqCurTimeSec request
                    \<and> ExpireDurationSec request
                         \<le>s reqCurTimeSec request - lastOf r (InstanceId request))),
          LastHeartbeatTimeSec = lastOf r (InstanceId request),
          StayUnchanged =
            (skipCheck r (InstanceId request) (ExpireDurationSec request) nowMilli
             \<or> (Healthy request \<longleftrightarrow>
                  \<not> (lastOf r (InstanceId request) <s reqCurTimeSec request
                      \<and> ExpireDurationSec request
                           \<le>s reqCurTimeSec request - lastOf r (InstanceId request))))\<rparr>"
  by (auto simp: Check_def Query_def lastOf_def Let_def split: option.splits)

lemma S_checker_simps:
  "lastOf (S_checker lastSec) ''i'' = lastSec" "SuspendTimeSec (S_checker lastSec) = 0"
  by (simp_all add: S_checker_def Report_def Initialize_def lastOf_def SuspendTimeSec_def)

lemma S5_checker_simps:
  "lastOf S5_checker i = 0" "sint (SuspendTimeSec S5_checker) = 1000"
  by (simp_all add: S5_checker_def Suspend_def Initialize_def lastOf_def SuspendTimeSec_def
      sint_go_div64_1000)

subsection \<open>Expiry\<close>

text \<open>
  Claim C1. For a \<open>Check\<close> call with prior health true, on a checker that is not suspended,
  with last heartbeat time \<open>L\<close> (0 when no record is stored), current time \<open>C\<close> and expire
  duration \<open>E\<close>: the call returns a response, the response carries \<open>L\<close>, and its health is
  false exactly when \<open>C > L\<close> and \<open>C - L \<ge> E\<close> in the \<open>int64\<close> arithmetic of the source;
  a false health is then reported as a change (\<open>StayUnchanged\<close> is false). Whenever
  \<open>C - L\<close> does not exceed the \<open>int64\<close> range, the same holds with the comparison and the
  subtraction read over the integers.
\<close>

theorem Check_expiry_transition:
  assumes "Healthy request"
    and "\<not> skipCheck r (InstanceId request) (ExpireDurationSec request) nowMilli"
  shows "\<exists>resp. Check r request nowMilli = Inr resp
     \<and> LastHeartbeatTimeSec resp = lastOf r (InstanceId request)
     \<and> (resp_Healthy resp = False \<longleftrightarrow>
          lastOf r (InstanceId request) <s reqCurTimeSec request
          \<and> ExpireDurationSec request \<le>s reqCurTimeSec request - lastOf r (InstanceId request))
     \<and> (resp_Healthy resp = False \<longrightarrow> StayUnchanged resp = False)
     \<and> (sint (reqCurTimeSec request) - sint (lastOf r (InstanceId request)) < 2 ^ 63 \<longrightarrow>
          (resp_Healthy resp = False \<longleftrightarrow>
             sint (lastOf r (InstanceId request)) < sint (reqCurTimeSec request)
             \<and> sint (ExpireDurationSec request)
                 \<le> sint (reqCurTimeSec request) - sint (lastOf r (InstanceId request))))"
proof -
  let ?L = "lastOf r (InstanceId request)" and ?C = "reqCurTimeSec request"
  have sub: "sint (?C - ?L) = sint ?C - sint ?L"
    if "sint ?C - sint ?L < 2 ^ 63" "sint ?L < sint ?C"
    using that by (intro sint_sub_no_overflow) linarith+
  show ?thesis
    using assms sub
    by (auto simp: Check_cases word_sless_alt word_sle_eq)
qed

text \<open>Scenario S2: last heartbeat 100, checked at 200 with expire 50 and prior health true.\<close>

theorem Check_expiry_transition_witness:
  "Healthy (S_request True 200 50)
   \<and> \<not> skipCheck (S_checker 100) (InstanceId (S_request True 200 50))
         (ExpireDurationSec (S_request True 200 50)) 200000
   \<and> (\<exists>resp. Check (S_checker 100) (S_request True 200 50) 200000 = Inr resp
         \<and> resp_Healthy resp = False \<and> LastHeartbeatTimeSec resp = 100
         \<and> StayUnchanged resp = False)"
proof -
  have h1: "Healthy (S_request True 200 50)"
    by (simp add: S_request_def)
  have h2: "\<not> skipCheck (S_checker 100) (InstanceId (S_request True 200 50))
         (ExpireDurationSec (S_request True 200 50)) 200000"
    by (simp add: skipCheck_int S_checker_simps)
  have "(100::int64) <s 200 \<and> (50::int64) \<le>s 200 - 100"
    by (simp add: word_sless_alt word_sle_eq)
  with Check_expiry_transition [OF h1 h2] h1 h2 show ?thesis
    by (auto simp: S_request_def S_checker_simps)
qed

subsection \<open>Suspension\<close>

text \<open>
  Claim C3. \<open>skipCheck\<close> returns true exactly when the recorded suspend time is strictly
  positive, the wall-clock second \<open>now\<close> is at least the suspend time, and
  \<open>now - suspend_time\<close> is less than the expire duration, all read over the integers
  (the guarded subtraction cannot wrap); \<open>now\<close> is the wall clock's milliseconds divided
  by 1000, truncated. \<open>Suspend\<close> stores that same second as the suspend time, in one
  store, and leaves the heartbeat records alone.
\<close>

theorem skipCheck_iff_suspend_window:
  "(skipCheck r i E nowMilli \<longleftrightarrow>
      0 < sint (SuspendTimeSec r)
      \<and> sint (SuspendTimeSec r) \<le> sint nowMilli sdiv 1000
      \<and> sint nowMilli sdiv 1000 - sint (SuspendTimeSec r) < sint E)
   \<and> sint (SuspendTimeSec (Suspend r nowMilli)) = sint nowMilli sdiv 1000
   \<and> hbRecords (Suspend r nowMilli) = hbRecords r"
  using skipCheck_int [of r i E nowMilli]
  by (simp add: Suspend_def SuspendTimeSec_def sint_go_div64_1000)

theorem skipCheck_iff_suspend_window_witness:
  "skipCheck S5_checker ''i'' 60 1020000 \<and> \<not> skipCheck S5_checker ''i'' 60 1060000
   \<and> \<not> skipCheck (S_checker 100) ''i'' 60 1020000"
  using skipCheck_iff_suspend_window [of S5_checker "''i''" 60 1020000]
    skipCheck_iff_suspend_window [of S5_checker "''i''" 60 1060000]
    skipCheck_iff_suspend_window [of "S_checker 100" "''i''" 60 1020000]
  by (simp add: S5_checker_simps S_checker_simps)

text \<open>
  Claim C2. For every \<open>Check\<close> call whose wall-clock second lies in the window
  \<open>[suspend_time, suspend_time + expire_duration)\<close> of a checker with
  \<open>suspend_time > 0\<close>, the call returns, and its outcome is \<open>StayUnchanged\<close> true,
  never the outcome unhealthy (\<open>Healthy\<close> false reported as a change): the health the
  caller holds after the call is the prior one. The response carries the stored last
  heartbeat time, and its \<open>Healthy\<close> field, which \<open>StayUnchanged\<close> tells the caller not
  to read, is left at its zero value.
\<close>

theorem Check_suspend_window:
  assumes "0 < sint (SuspendTimeSec r)"
    and "sint (SuspendTimeSec r) \<le> sint nowMilli sdiv 1000"
    and "sint nowMilli sdiv 1000 < sint (SuspendTimeSec r) + sint (ExpireDurationSec request)"
  shows "\<exists>resp. Check r request nowMilli = Inr resp
     \<and> StayUnchanged resp = True
     \<and> \<not> (resp_Healthy resp = False \<and> StayUnchanged resp = False)
     \<and> nextHealthy (Healthy request) resp = Healthy request
     \<and> resp = \<lparr>resp_Healthy = False, LastHeartbeatTimeSec = lastOf r (InstanceId request),
                 StayUnchanged = True\<rparr>"
proof -
  have "skipCheck r (InstanceId request) (ExpireDurationSec request) nowMilli"
    using assms by (simp add: skipCheck_int)
  then show ?thesis
    by (simp add: Check_cases nextHealthy_def)
qed

text \<open>
  Scenario S5: suspended at second 1000 and checked at second 1020 with expire 60, no
  heartbeat stored and prior health true; without the suspension the call would report
  the instance unhealthy.
\<close>

theorem Check_suspend_window_witness:
  "0 < sint (SuspendTimeSec S5_checker)
   \<and> sint (SuspendTimeSec S5_checker) \<le> sint (1020000 :: int64) sdiv 1000
   \<and> sint (1020000 :: int64) sdiv 1000
        < sint (SuspendTimeSec S5_checker) + sint (ExpireDurationSec (S_request True 1020 60))
   \<and> (\<exists>resp. Check S5_checker (S_request True 1020 60) 1020000 = Inr resp
         \<and> StayUnchanged resp = True
         \<and> nextHealthy True resp = True
         \<and> LastHeartbeatTimeSec resp = 0)"
proof -
  have h1: "0 < sint (SuspendTimeSec S5_checker)"
    by (simp add: S5_checker_simps)
  have h2: "sint (SuspendTimeSec S5_checker) \<le> sint (1020000 :: int64) sdiv 1000"
    by (simp add: S5_checker_simps signed_divide_int_def)
  have h3: "sint (1020000 :: int64) sdiv 1000
        < sint (SuspendTimeSec S5_checker) + sint (ExpireDurationSec (S_request True 1020 60))"
    by (simp add: S5_checker_simps S_request_def signed_divide_int_def)
  from Check_suspend_window [OF h1 h2 h3] h1 h2 h3 show ?thesis
    by (auto simp: S5_checker_simps S_request_def)
qed

subsection \<open>Idempotence\<close>

text \<open>
  Claim C7. Run \<open>Check\<close> once, then again on the same checker state, at the same request
  time and wall-clock time, with the prior health replaced by the health that results
  from the first call (the first response's \<open>Healthy\<close> field, or what the caller holds
  after honouring \<open>StayUnchanged\<close>): both calls return, and the second response has
  \<open>StayUnchanged\<close> true.
\<close>

theorem Check_idempotent:
  "\<exists>resp1 resp2 resp2'.
      Check r request nowMilli = Inr resp1
    \<and> Check r (request\<lparr>Healthy := resp_Healthy resp1\<rparr>) nowMilli = Inr resp2
    \<and> StayUnchanged resp2
    \<and> Check r (request\<lparr>Healthy := nextHealthy (Healthy request) resp1\<rparr>) nowMilli = Inr resp2'
    \<and> StayUnchanged resp2'"
  by (auto simp: Check_cases nextHealthy_def)

text \<open>Scenario S2 followed by S3: the second call, with prior health false, changes nothing.\<close>

theorem Check_idempotent_witness:
  "\<exists>resp2. Check (S_checker 100) (S_request False 200 50) 200000 = Inr resp2
     \<and> StayUnchanged resp2"
proof -
  have first: "Check (S_checker 100) (S_request True 200 50) 200000
      = Inr \<lparr>resp_Healthy = False, LastHeartbeatTimeSec = 100, StayUnchanged = False\<rparr>"
    by (simp add: Check_cases S_checker_simps S_request_def skipCheck_int
        word_sless_alt word_sle_eq)
  have upd: "(S_request True 200 50)\<lparr>Healthy := False\<rparr> = S_request False 200 50"
    by (simp add: S_request_def)
  from Check_idempotent [of "S_checker 100" "S_request True 200 50" 200000] first upd
  show ?thesis by auto
qed

section \<open>Properties of the heartbeat RPCs\<close>

lemma BatchGetHeartbeat_loop_error:
  assumes "queries_succeed checker pre s = Some s1"
    and "hc_Query checker \<lparr>InstanceId = k, Healthy = False\<rparr> s1 = (Inl e, s2)"
  shows "BatchGetHeartbeat_loop checker (pre @ k # post) records s = (Inl e, s2)"
  using assms
  by (induction pre arbitrary: records s) (auto split: prod.splits sum.splits)

lemma BatchGetHeartbeat_loop_success:
  assumes "BatchGetHeartbeat_loop checker keys records s = (Inr rs, s')"
  shows "\<exists>new. rs = records @ new \<and> map (map_option hr_InstanceId) new = map Some keys
           \<and> queries_succeed checker keys s = Some s'"
  using assms
proof (induction keys arbitrary: records s)
  case Nil
  then show ?case by simp
next
  case (Cons key keys)
  then show ?case
    by (fastforce split: prod.splits sum.splits simp: Let_def)
qed

lemma BatchGetHeartbeat_loop_total:
  assumes "queries_succeed checker keys s = Some s'"
  shows "\<exists>rs. BatchGetHeartbeat_loop checker keys records s = (Inr rs, s')"
  using assms
  by (induction keys arbitrary: records s) (auto split: prod.splits sum.splits simp: Let_def)

lemma BatchDelHeartbeat_loop_error:
  assumes "deletes_succeed checker pre s = Some s1"
    and "hc_Delete checker k s1 = (Some e, s2)"
  shows "BatchDelHeartbeat_loop checker (pre @ k # post) s = (Inl e, s2)"
  using assms
  by (induction pre arbitrary: s) (auto split: prod.splits option.splits)

lemma BatchDelHeartbeat_loop_success:
  "BatchDelHeartbeat_loop checker keys s = (Inr DelHeartbeatsResponse, s')
     \<longleftrightarrow> deletes_succeed checker keys s = Some s'"
  by (induction keys arbitrary: s) (auto split: prod.splits option.splits)

text \<open>
  Claim C5. When no checker is registered for the heartbeat kind, \<open>BatchGetHeartbeat\<close>
  returns an empty response and \<open>BatchDelHeartbeat\<close> an empty one, both with a nil error
  and the state untouched. With a checker registered: when the calls on the ids before
  \<open>k\<close> all succeed and the call on \<open>k\<close> returns error \<open>e\<close>, the whole batch
  returns \<open>e\<close> (for \<open>Query\<close> and for \<open>Delete\<close>); a batch get that succeeds returns one
  non-nil record per requested id, in request order, and every query has succeeded;
  and when every call succeeds the batch does.
\<close>

theorem Batch_heartbeat_abort_on_first_error:
  "(Checkers g heartbeat = None \<longrightarrow>
      BatchGetHeartbeat heartbeat g req s = (Inr \<lparr>Records = []\<rparr>, s)
      \<and> BatchDelHeartbeat heartbeat g dreq s = (Inr DelHeartbeatsResponse, s))
   \<and> (Checkers g heartbeat = Some checker \<and> GetInstanceIds req = pre @ k # post
        \<and> queries_succeed checker pre s = Some s1
        \<and> hc_Query checker \<lparr>InstanceId = k, Healthy = False\<rparr> s1 = (Inl e, s2) \<longrightarrow>
      BatchGetHeartbeat heartbeat g req s = (Inl e, s2))
   \<and> (Checkers g heartbeat = Some checker \<and> del_GetInstanceIds dreq = pre @ k # post
        \<and> deletes_succeed checker pre s = Some s1
        \<and> hc_Delete checker k s1 = (Some e, s2) \<longrightarrow>
      BatchDelHeartbeat heartbeat g dreq s = (Inl e, s2))
   \<and> (Checkers g heartbeat = Some checker
        \<and> BatchGetHeartbeat heartbeat g req s = (Inr resp, s') \<longrightarrow>
      map (map_option hr_InstanceId) (Records resp) = map Some (GetInstanceIds req)
      \<and> queries_succeed checker (GetInstanceIds req) s = Some s')
   \<and> (Checkers g heartbeat = Some checker
        \<and> queries_succeed checker (GetInstanceIds req) s = Some s' \<longrightarrow>
      (\<exists>resp. BatchGetHeartbeat heartbeat g req s = (Inr resp, s')))
   \<and> (Checkers g heartbeat = Some checker \<longrightarrow>
      (BatchDelHeartbeat heartbeat g dreq s = (Inr DelHeartbeatsResponse, s')
        \<longleftrightarrow> deletes_succeed checker (del_GetInstanceIds dreq) s = Some s'))"
proof (intro conjI impI)
  assume "Checkers g heartbeat = None"
  then show "BatchGetHeartbeat heartbeat g req s = (Inr \<lparr>Records = []\<rparr>, s)"
    by (simp add: BatchGetHeartbeat_def)
next
  assume "Checkers g heartbeat = None"
  then show "BatchDelHeartbeat heartbeat g dreq s = (Inr DelHeartbeatsResponse, s)"
    by (simp add: BatchDelHeartbeat_def)
next
  assume "Checkers g heartbeat = Some checker \<and> GetInstanceIds req = pre @ k # post
        \<and> queries_succeed checker pre s = Some s1
        \<and> hc_Query checker \<lparr>InstanceId = k, Healthy = False\<rparr> s1 = (Inl e, s2)"
  then show "BatchGetHeartbeat heartbeat g req s = (Inl e, s2)"
    by (simp add: BatchGetHeartbeat_def BatchGetHeartbeat_loop_error)
next
  assume "Checkers g heartbeat = Some checker \<and> del_GetInstanceIds dreq = pre @ k # post
        \<and> deletes_succeed checker pre s = Some s1
        \<and> hc_Delete checker k s1 = (Some e, s2)"
  then show "BatchDelHeartbeat heartbeat g dreq s = (Inl e, s2)"
    by (simp add: BatchDelHeartbeat_def BatchDelHeartbeat_loop_error)
next
  assume a: "Checkers g heartbeat = Some checker
        \<and> BatchGetHeartbeat heartbeat g req s = (Inr resp, s')"
  then have "BatchGetHeartbeat_loop checker (GetInstanceIds req) [] s = (Inr (Records resp), s')"
    by (auto simp: BatchGetHeartbeat_def split: prod.splits sum.splits)
  from BatchGetHeartbeat_loop_success [OF this]
  show "map (map_option hr_InstanceId) (Records resp) = map Some (GetInstanceIds req)"
    and "queries_succeed checker (GetInstanceIds req) s = Some s'"
    by auto
next
  assume a: "Checkers g heartbeat = Some checker
        \<and> queries_succeed checker (GetInstanceIds req) s = Some s'"
  then have "queries_succeed checker (GetInstanceIds req) s = Some s'"
    by simp
  from BatchGetHeartbeat_loop_total [OF this, of "[]"]
  obtain rs where "BatchGetHeartbeat_loop checker (GetInstanceIds req) [] s = (Inr rs, s')"
    by blast
  with a show "\<exists>resp. BatchGetHeartbeat heartbeat g req s = (Inr resp, s')"
    by (simp add: BatchGetHeartbeat_def)
next
  assume "Checkers g heartbeat = Some checker"
  then show "BatchDelHeartbeat heartbeat g dreq s = (Inr DelHeartbeatsResponse, s')
        \<longleftrightarrow> deletes_succeed checker (del_GetInstanceIds dreq) s = Some s'"
    by (simp add: BatchDelHeartbeat_def BatchDelHeartbeat_loop_success)
qed


lemma S_server_simps:
  "Checkers (S_server checker) 1 = Some checker" "Checkers (S_server checker) 2 = None"
  by (simp_all add: S_server_def)

theorem Batch_heartbeat_abort_on_first_error_witness:
  "BatchGetHeartbeat 2 (S_server failing_checker) (Some \<lparr>get_InstanceIds = [''a'']\<rparr>)
       (S_checker 100)
     = (Inr \<lparr>Records = []\<rparr>, S_checker 100)
   \<and> BatchGetHeartbeat 1 (S_server failing_checker)
       (Some \<lparr>get_InstanceIds = [''a'', ''bad'', ''c'']\<rparr>) (S_checker 100)
     = (Inl (Error ''query failed''), S_checker 100)
   \<and> BatchDelHeartbeat 1 (S_server failing_checker)
       (Some \<lparr>del_InstanceIds = [''a'', ''bad'', ''c'']\<rparr>) (S_checker 100)
     = (Inl (Error ''delete failed''), Delete (S_checker 100) ''a'')
   \<and> (\<exists>resp. BatchGetHeartbeat 1 (S_server failing_checker)
          (Some \<lparr>get_InstanceIds = [''a'', ''i'']\<rparr>) (S_checker 100) = (Inr resp, S_checker 100)
        \<and> map (map_option hr_InstanceId) (Records resp) = [Some ''a'', Some ''i''])"
proof -
  note T = Batch_heartbeat_abort_on_first_error
  have none: "Checkers (S_server failing_checker) 2 = None"
    by (simp add: S_server_simps)
  have get_err: "Checkers (S_server failing_checker) 1 = Some failing_checker
      \<and> GetInstanceIds (Some \<lparr>get_InstanceIds = [''a'', ''bad'', ''c'']\<rparr>) = [''a''] @ ''bad'' # [''c'']
      \<and> queries_succeed failing_checker [''a''] (S_checker 100) = Some (S_checker 100)
      \<and> hc_Query failing_checker \<lparr>InstanceId = ''bad'', Healthy = False\<rparr> (S_checker 100)
          = (Inl (Error ''query failed''), S_checker 100)"
    by (simp add: S_server_simps GetInstanceIds_def failing_checker_def Query_def
        split: option.splits)
  have del_err: "Checkers (S_server failing_checker) 1 = Some failing_checker
      \<and> del_GetInstanceIds (Some \<lparr>del_InstanceIds = [''a'', ''bad'', ''c'']\<rparr>) = [''a''] @ ''bad'' # [''c'']
      \<and> deletes_succeed failing_checker [''a''] (S_checker 100) = Some (Delete (S_checker 100) ''a'')
      \<and> hc_Delete failing_checker ''bad'' (Delete (S_checker 100) ''a'')
          = (Some (Error ''delete failed''), Delete (S_checker 100) ''a'')"
    by (simp add: S_server_simps del_GetInstanceIds_def failing_checker_def)
  have ok: "Checkers (S_server failing_checker) 1 = Some failing_checker
      \<and> queries_succeed failing_checker (GetInstanceIds (Some \<lparr>get_InstanceIds = [''a'', ''i'']\<rparr>))
          (S_checker 100) = Some (S_checker 100)"
    by (simp add: S_server_simps GetInstanceIds_def failing_checker_def Query_def
        split: option.splits)
  from T [THEN conjunct1, THEN mp, OF none, THEN conjunct1]
  have 1: "BatchGetHeartbeat 2 (S_server failing_checker) (Some \<lparr>get_InstanceIds = [''a'']\<rparr>)
       (S_checker 100) = (Inr \<lparr>Records = []\<rparr>, S_checker 100)" .
  from T [THEN conjunct2, THEN conjunct1, THEN mp, OF get_err]
  have 2: "BatchGetHeartbeat 1 (S_server failing_checker)
       (Some \<lparr>get_InstanceIds = [''a'', ''bad'', ''c'']\<rparr>) (S_checker 100)
     = (Inl (Error ''query failed''), S_checker 100)" .
  from T [THEN conjunct2, THEN conjunct2, THEN conjunct1, THEN mp, OF del_err]
  have 3: "BatchDelHeartbeat 1 (S_server failing_checker)
       (Some \<lparr>del_InstanceIds = [''a'', ''bad'', ''c'']\<rparr>) (S_checker 100)
     = (Inl (Error ''delete failed''), Delete (S_checker 100) ''a'')" .
  from T [THEN conjunct2, THEN conjunct2, THEN conjunct2, THEN conjunct2, THEN conjunct1,
      THEN mp, OF ok]
  obtain resp where r: "BatchGetHeartbeat 1 (S_server failing_checker)
          (Some \<lparr>get_InstanceIds = [''a'', ''i'']\<rparr>) (S_checker 100) = (Inr resp, S_checker 100)"
    by blast
  have "Checkers (S_server failing_checker) 1 = Some failing_checker
      \<and> BatchGetHeartbeat 1 (S_server failing_checker)
          (Some \<lparr>get_InstanceIds = [''a'', ''i'']\<rparr>) (S_checker 100) = (Inr resp, S_checker 100)"
    using r by (simp add: S_server_simps)
  from T [THEN conjunct2, THEN conjunct2, THEN conjunct2, THEN conjunct1, THEN mp, OF this]
  have 4: "map (map_option hr_InstanceId) (Records resp) = [Some ''a'', Some ''i'']"
    by (simp add: GetInstanceIds_def)
  from 1 2 3 4 r show ?thesis by auto
qed

lemma BatchGetHeartbeat_loop_memory:
  "BatchGetHeartbeat_loop MemoryHealthChecker_plugin keys records r =
     (Inr (records @ map (\<lambda>key. Some \<lparr>hr_InstanceId = key, hr_LastHeartbeatSec = lastOf r key,
                                         hr_Exist = False\<rparr>) keys), r)"
  by (induction keys arbitrary: records)
    (auto simp: MemoryHealthChecker_plugin_def Query_def lastOf_def split: option.splits)

text \<open>
  Claim C9. \<open>Query\<close> of the in-memory checker returns a nil error and \<open>Exists\<close> false for
  every request, also right after a report for the queried instance has been stored
  (the response then carries the reported time); so with that checker registered,
  \<open>BatchGetHeartbeat\<close> succeeds with one record per id, each with \<open>Exist\<close> false.
\<close>

theorem Query_never_sets_Exists:
  "(\<exists>q. Query r request = Inr q \<and> Exists q = False)
   \<and> (\<exists>q. Query (Report r rep) \<lparr>InstanceId = rep_InstanceId rep, Healthy = h\<rparr> = Inr q
          \<and> LastHeartbeatSec q = rep_CurTimeSec rep \<and> Exists q = False)
   \<and> (Checkers g heartbeat = Some MemoryHealthChecker_plugin \<longrightarrow>
        (\<exists>resp. BatchGetHeartbeat heartbeat g req r = (Inr resp, r)
           \<and> length (Records resp) = length (GetInstanceIds req)
           \<and> (\<forall>x \<in> set (Records resp). \<exists>record. x = Some record \<and> hr_Exist record = False)))"
proof (intro conjI impI)
  show "\<exists>q. Query r request = Inr q \<and> Exists q = False"
    by (simp add: Query_def split: option.splits)
  show "\<exists>q. Query (Report r rep) \<lparr>InstanceId = rep_InstanceId rep, Healthy = h\<rparr> = Inr q
          \<and> LastHeartbeatSec q = rep_CurTimeSec rep \<and> Exists q = False"
    by (simp add: Query_def Report_def)
next
  assume "Checkers g heartbeat = Some MemoryHealthChecker_plugin"
  then show "\<exists>resp. BatchGetHeartbeat heartbeat g req r = (Inr resp, r)
           \<and> length (Records resp) = length (GetInstanceIds req)
           \<and> (\<forall>x \<in> set (Records resp). \<exists>record. x = Some record \<and> hr_Exist record = False)"
    by (auto simp: BatchGetHeartbeat_def BatchGetHeartbeat_loop_memory)
qed

theorem Query_never_sets_Exists_witness:
  "(\<exists>q. Query (S_checker 100) \<lparr>InstanceId = ''i'', Healthy = True\<rparr> = Inr q
        \<and> LastHeartbeatSec q = 100 \<and> Exists q = False)
   \<and> (\<exists>resp. BatchGetHeartbeat 1 (S_server MemoryHealthChecker_plugin)
          (Some \<lparr>get_InstanceIds = [''i'', ''nope'']\<rparr>) (S_checker 100) = (Inr resp, S_checker 100)
        \<and> length (Records resp) = Suc (Suc 0)
        \<and> (\<forall>x \<in> set (Records resp). \<exists>record. x = Some record \<and> hr_Exist record = False))"
proof -
  have reg: "Checkers (S_server MemoryHealthChecker_plugin) 1 = Some MemoryHealthChecker_plugin"
    by (simp add: S_server_simps)
  from Query_never_sets_Exists [THEN conjunct2, THEN conjunct2, THEN mp, OF reg,
      of "Some \<lparr>get_InstanceIds = [''i'', ''nope'']\<rparr>" "S_checker 100"]
  have 2: "\<exists>resp. BatchGetHeartbeat 1 (S_server MemoryHealthChecker_plugin)
          (Some \<lparr>get_InstanceIds = [''i'', ''nope'']\<rparr>) (S_checker 100) = (Inr resp, S_checker 100)
        \<and> length (Records resp) = Suc (Suc 0)
        \<and> (\<forall>x \<in> set (Records resp). \<exists>record. x = Some record \<and> hr_Exist record = False)"
    by (simp add: GetInstanceIds_def)
  from Query_never_sets_Exists [THEN conjunct2, THEN conjunct1,
      of "Initialize \<lparr>hbRecords = Map.empty, suspendTimeSec = 0\<rparr>"
         "\<lparr>rep_InstanceId = ''i'', LocalHost = ''srv'', rep_CurTimeSec = 100, rep_Count = 1\<rparr>" True]
  have 1: "\<exists>q. Query (S_checker 100) \<lparr>InstanceId = ''i'', Healthy = True\<rparr> = Inr q
        \<and> LastHeartbeatSec q = 100 \<and> Exists q = False"
    by (simp add: S_checker_def)
  from 1 2 show ?thesis by (rule conjI)
qed

section \<open>Properties of the job runner\<close>




section \<open>Properties of the beat record caches\<close>

lemma LocalBeatRecordCache_Get_loop_lookup:
  "LocalBeatRecordCache_Get_loop lc keys ret key =
     (if key \<in> set keys
      then Some \<lparr>Record = fst (SegmentMap_Get (beatCache lc) key),
                 Exist = snd (SegmentMap_Get (beatCache lc) key)\<rparr>
      else ret key)"
  by (induction keys arbitrary: ret) (auto split: prod.splits)

lemma LocalBeatRecordCache_Get_lookup:
  "LocalBeatRecordCache_Get lc keys key =
     (if key \<in> set keys
      then Some \<lparr>Record = fst (SegmentMap_Get (beatCache lc) key),
                 Exist = snd (SegmentMap_Get (beatCache lc) key)\<rparr>
      else None)"
  by (simp add: LocalBeatRecordCache_Get_def LocalBeatRecordCache_Get_loop_lookup)

text \<open>
  Claim C6. For every list of keys, \<open>Get\<close> of the local cache returns a map whose keys
  are exactly the requested ones; a requested key with no stored record maps to
  \<open>Exist\<close> false with the zero record, a stored one to \<open>Exist\<close> true with its record.
  \<open>Get\<close> has no failing path: it is a total function to maps.
\<close>

theorem LocalBeatRecordCache_Get_total:
  "dom (LocalBeatRecordCache_Get lc keys) = set keys
   \<and> (\<forall>key \<in> set keys.
        (shards (beatCache lc) (shard_of (beatCache lc) key) key = None \<longrightarrow>
           LocalBeatRecordCache_Get lc keys key = Some \<lparr>Record = RecordValue_zero, Exist = False\<rparr>)
        \<and> (\<forall>v. shards (beatCache lc) (shard_of (beatCache lc) key) key = Some v \<longrightarrow>
           LocalBeatRecordCache_Get lc keys key = Some \<lparr>Record = v, Exist = True\<rparr>))"
  by (auto simp: LocalBeatRecordCache_Get_lookup SegmentMap_Get_def dom_def split: if_splits)

lemma newLocalBeatRecordCache_empty:
  "shards (beatCache (newLocalBeatRecordCache d n h)) i k = None"
  by (simp add: newLocalBeatRecordCache_def NewSegmentMap_def Let_def)

theorem LocalBeatRecordCache_Get_total_witness:
  "dom (LocalBeatRecordCache_Get (newLocalBeatRecordCache 16 0 (\<lambda>k. int (length k))) [''nope''])
     = {''nope''}
   \<and> LocalBeatRecordCache_Get (newLocalBeatRecordCache 16 0 (\<lambda>k. int (length k))) [''nope''] ''nope''
     = Some \<lparr>Record = RecordValue_zero, Exist = False\<rparr>"
proof -
  let ?lc = "newLocalBeatRecordCache 16 0 (\<lambda>k. int (length k))"
  note T = LocalBeatRecordCache_Get_total [of ?lc "[''nope'']"]
  have miss: "shards (beatCache ?lc) (shard_of (beatCache ?lc) ''nope'') ''nope'' = None"
    by (rule newLocalBeatRecordCache_empty)
  from T miss show ?thesis by simp
qed

lemma dom_RemoteBeatRecordCache_Get_init:
  "dom (RemoteBeatRecordCache_Get_init keys ret) = dom ret \<union> set keys"
  by (induction keys arbitrary: ret) auto

lemma RemoteBeatRecordCache_Get_loop_hit:
  assumes "ret (hr_InstanceId rcd) = Some val"
  shows "\<exists>val'. RemoteBeatRecordCache_Get_loop (Some rcd # records) ret =
           RemoteBeatRecordCache_Get_loop records (ret(hr_InstanceId rcd \<mapsto> val'))"
  using assms by (intro exI) simp

lemma dom_upd_hit: "ret k = Some val \<Longrightarrow> dom (ret(k \<mapsto> val')) = dom ret"
  by (simp add: insert_absorb domI)

lemma RemoteBeatRecordCache_Get_loop_Inr:
  "(\<exists>ret'. RemoteBeatRecordCache_Get_loop records ret = Inr ret' \<and> dom ret' = dom ret)
     \<longleftrightarrow> (\<forall>x \<in> set records. \<exists>rcd. x = Some rcd \<and> hr_InstanceId rcd \<in> dom ret)"
proof (induction records arbitrary: ret)
  case Nil
  then show ?case by simp
next
  case (Cons x records)
  show ?case
  proof (cases x)
    case None
    then show ?thesis by simp
  next
    case (Some rcd)
    show ?thesis
    proof (cases "ret (hr_InstanceId rcd)")
      case None
      with Some show ?thesis by (auto simp: domIff)
    next
      case hit: (Some val)
      from RemoteBeatRecordCache_Get_loop_hit [of ret rcd val records, OF hit]
      obtain val' where step: "RemoteBeatRecordCache_Get_loop (Some rcd # records) ret =
           RemoteBeatRecordCache_Get_loop records (ret(hr_InstanceId rcd \<mapsto> val'))"
        by blast
      have d: "dom (ret(hr_InstanceId rcd \<mapsto> val')) = dom ret"
        using hit by (rule dom_upd_hit)
      have in_dom: "hr_InstanceId rcd \<in> dom ret"
        using hit by (simp add: domI)
      from Cons.IH [of "ret(hr_InstanceId rcd \<mapsto> val')"]
      have "(\<exists>ret'. RemoteBeatRecordCache_Get_loop (Some rcd # records) ret = Inr ret'
                \<and> dom ret' = dom ret)
        \<longleftrightarrow> (\<forall>x \<in> set records. \<exists>rcd. x = Some rcd \<and> hr_InstanceId rcd \<in> dom ret)"
        unfolding step d .
      with in_dom Some show ?thesis by simp
    qed
  qed
qed

lemma RemoteBeatRecordCache_Get_loop_dom:
  "RemoteBeatRecordCache_Get_loop records ret = Inr ret' \<Longrightarrow> dom ret' = dom ret"
proof (induction records arbitrary: ret)
  case Nil
  then show ?case by simp
next
  case (Cons x records)
  show ?case
  proof (cases x)
    case None
    with Cons.prems show ?thesis by simp
  next
    case (Some rcd)
    show ?thesis
    proof (cases "ret (hr_InstanceId rcd)")
      case None
      with Some Cons.prems show ?thesis by simp
    next
      case hit: (Some val)
      from RemoteBeatRecordCache_Get_loop_hit [of ret rcd val records, OF hit]
      obtain val' where step: "RemoteBeatRecordCache_Get_loop (Some rcd # records) ret =
           RemoteBeatRecordCache_Get_loop records (ret(hr_InstanceId rcd \<mapsto> val'))"
        by blast
      with Cons.prems Some
      have "RemoteBeatRecordCache_Get_loop records (ret(hr_InstanceId rcd \<mapsto> val')) = Inr ret'"
        by simp
      then have "dom ret' = dom (ret(hr_InstanceId rcd \<mapsto> val'))"
        by (rule Cons.IH)
      also have "\<dots> = dom ret"
        using hit by (rule dom_upd_hit)
      finally show ?thesis .
    qed
  qed
qed

lemma not_Inr_panic: "(\<forall>y. x \<noteq> Inr y) \<longleftrightarrow> x = Inl NilPointerDereference"
  by (cases x) (auto intro: panic.exhaust)

text \<open>
  Claim C8. \<open>Get\<close> of the remote cache dereferences a nil pointer exactly when the
  getter's response holds a record that is nil or whose \<open>InstanceId\<close> is not among the
  requested keys; in particular a response with a record for an id that was not
  requested makes it panic. Whenever it returns, the map has an entry for exactly the
  requested keys.
\<close>

theorem RemoteBeatRecordCache_Get_nil_dereference:
  "(fst (RemoteBeatRecordCache_Get rc keys w) = Inl NilPointerDereference
      \<longleftrightarrow> \<not> (\<forall>x \<in> set (GetRecords (fst (getter rc \<lparr>get_InstanceIds = keys\<rparr> w))).
               \<exists>record. x = Some record \<and> hr_InstanceId record \<in> set keys))
   \<and> (\<forall>ret. fst (RemoteBeatRecordCache_Get rc keys w) = Inr ret \<longrightarrow> dom ret = set keys)
   \<and> (Some record \<in> set (GetRecords (fst (getter rc \<lparr>get_InstanceIds = keys\<rparr> w)))
        \<and> hr_InstanceId record \<notin> set keys \<longrightarrow>
      fst (RemoteBeatRecordCache_Get rc keys w) = Inl NilPointerDereference)"
proof -
  let ?ret = "RemoteBeatRecordCache_Get_init keys Map.empty"
  let ?records = "GetRecords (fst (getter rc \<lparr>get_InstanceIds = keys\<rparr> w))"
  have fst_eq: "fst (RemoteBeatRecordCache_Get rc keys w) = RemoteBeatRecordCache_Get_loop ?records ?ret"
    by (simp add: RemoteBeatRecordCache_Get_def Let_def split: prod.splits)
  have d: "dom ?ret = set keys"
    by (simp add: dom_RemoteBeatRecordCache_Get_init)
  have iff: "RemoteBeatRecordCache_Get_loop ?records ?ret = Inl NilPointerDereference
      \<longleftrightarrow> \<not> (\<forall>x \<in> set ?records. \<exists>record. x = Some record \<and> hr_InstanceId record \<in> set keys)"
    using RemoteBeatRecordCache_Get_loop_Inr [of ?records ?ret] d
      not_Inr_panic [of "RemoteBeatRecordCache_Get_loop ?records ?ret"]
      RemoteBeatRecordCache_Get_loop_dom [of ?records ?ret]
    by (metis sum.distinct(1))
  have dom': "\<forall>ret. RemoteBeatRecordCache_Get_loop ?records ?ret = Inr ret \<longrightarrow> dom ret = set keys"
    using RemoteBeatRecordCache_Get_loop_dom d by blast
  from iff dom' show ?thesis
    unfolding fst_eq by blast
qed

text \<open>A response for an id that was not requested, and one for a requested id.\<close>

theorem RemoteBeatRecordCache_Get_nil_dereference_witness:
  "fst (RemoteBeatRecordCache_Get
          (recording_cache (Some \<lparr>Records =
             [Some \<lparr>hr_InstanceId = ''zzz'', hr_LastHeartbeatSec = 7, hr_Exist = True\<rparr>]\<rparr>))
          [''a''] [])
     = Inl NilPointerDereference
   \<and> (\<exists>ret. fst (RemoteBeatRecordCache_Get
          (recording_cache (Some \<lparr>Records =
             [Some \<lparr>hr_InstanceId = ''a'', hr_LastHeartbeatSec = 7, hr_Exist = True\<rparr>]\<rparr>))
          [''a'', ''b''] [])
        = Inr ret \<and> dom ret = {''a'', ''b''})"
proof -
  let ?bad = "recording_cache (Some \<lparr>Records =
             [Some \<lparr>hr_InstanceId = ''zzz'', hr_LastHeartbeatSec = 7, hr_Exist = True\<rparr>]\<rparr>)"
  let ?good = "recording_cache (Some \<lparr>Records =
             [Some \<lparr>hr_InstanceId = ''a'', hr_LastHeartbeatSec = 7, hr_Exist = True\<rparr>]\<rparr>)"
  have h: "Some \<lparr>hr_InstanceId = ''zzz'', hr_LastHeartbeatSec = 7, hr_Exist = True\<rparr>
        \<in> set (GetRecords (fst (getter ?bad \<lparr>get_InstanceIds = [''a'']\<rparr> [])))
      \<and> hr_InstanceId \<lparr>hr_InstanceId = ''zzz'', hr_LastHeartbeatSec = 7, hr_Exist = True\<rparr>
        \<notin> set [''a'']"
    by (simp add: recording_cache_def GetRecords_def)
  from RemoteBeatRecordCache_Get_nil_dereference [of ?bad "[''a'']" "[]"
      "\<lparr>hr_InstanceId = ''zzz'', hr_LastHeartbeatSec = 7, hr_Exist = True\<rparr>",
      THEN conjunct2, THEN conjunct2, THEN mp, OF h]
  have 1: "fst (RemoteBeatRecordCache_Get ?bad [''a''] []) = Inl NilPointerDereference" .
  have g: "\<forall>x \<in> set (GetRecords (fst (getter ?good \<lparr>get_InstanceIds = [''a'', ''b'']\<rparr> []))).
               \<exists>rcd. x = Some rcd \<and> hr_InstanceId rcd \<in> set [''a'', ''b'']"
    by (simp add: recording_cache_def GetRecords_def)
  note T = RemoteBeatRecordCache_Get_nil_dereference [of ?good "[''a'', ''b'']" "[]"]
  from T [THEN conjunct1] g
  have "fst (RemoteBeatRecordCache_Get ?good [''a'', ''b''] []) \<noteq> Inl NilPointerDereference"
    by blast
  then obtain ret where r: "fst (RemoteBeatRecordCache_Get ?good [''a'', ''b''] []) = Inr ret"
    using not_Inr_panic by blast
  with T [THEN conjunct2, THEN conjunct1] have "dom ret = {''a'', ''b''}"
    by simp
  with 1 r show ?thesis by blast
qed

lemma RemoteBeatRecordCache_Put_loop_eq:
  "RemoteBeatRecordCache_Put_loop records req =
     \<lparr>Heartbeats = Heartbeats req @ map (\<lambda>record. Some \<lparr>ih_InstanceId = Key record\<rparr>) records\<rparr>"
  by (induction records arbitrary: req) simp_all

text \<open>
  Claim C10. \<open>Put\<close> of the remote cache calls the saver once, with one request whose
  heartbeats are, in order, one entry per record holding the record's \<open>Key\<close> as
  \<open>InstanceId\<close> and nothing else: two record lists with the same keys, whatever their
  \<open>Server\<close>, \<open>CurTimeSec\<close> and \<open>Count\<close>, give the same call.
\<close>

theorem RemoteBeatRecordCache_Put_keys_only:
  "RemoteBeatRecordCache_Put rc records w =
     saver rc \<lparr>Heartbeats = map (\<lambda>record. Some \<lparr>ih_InstanceId = Key record\<rparr>) records\<rparr> w
   \<and> RemoteBeatRecordCache_Put (recording_cache resp) records ws =
       ws @ [\<lparr>Heartbeats = map (\<lambda>record. Some \<lparr>ih_InstanceId = Key record\<rparr>) records\<rparr>]
   \<and> (map Key records = map Key records' \<longrightarrow>
        RemoteBeatRecordCache_Put rc records w = RemoteBeatRecordCache_Put rc records' w)"
proof -
  have eq: "\<And>rs. RemoteBeatRecordCache_Put rc rs w =
     saver rc \<lparr>Heartbeats = map (\<lambda>record. Some \<lparr>ih_InstanceId = Key record\<rparr>) rs\<rparr> w"
    by (simp add: RemoteBeatRecordCache_Put_def RemoteBeatRecordCache_Put_loop_eq)
  have m: "map (\<lambda>record. Some \<lparr>ih_InstanceId = Key record\<rparr>) rs
      = map (\<lambda>k. Some \<lparr>ih_InstanceId = k\<rparr>) (map Key rs)" for rs :: "WriteBeatRecord list"
    by simp
  have "RemoteBeatRecordCache_Put (recording_cache resp) records ws =
       ws @ [\<lparr>Heartbeats = map (\<lambda>record. Some \<lparr>ih_InstanceId = Key record\<rparr>) records\<rparr>]"
    by (simp add: RemoteBeatRecordCache_Put_def RemoteBeatRecordCache_Put_loop_eq recording_cache_def)
  moreover have "map Key records = map Key records' \<longrightarrow>
        RemoteBeatRecordCache_Put rc records w = RemoteBeatRecordCache_Put rc records' w"
    unfolding eq m by simp
  ultimately show ?thesis using eq by blast
qed


theorem RemoteBeatRecordCache_Put_keys_only_witness:
  "RemoteBeatRecordCache_Put (recording_cache None)
       [\<lparr>wr_Record = \<lparr>rv_Server = ''s1'', rv_CurTimeSec = 5, rv_Count = 9\<rparr>, Key = ''a''\<rparr>,
        \<lparr>wr_Record = \<lparr>rv_Server = ''s2'', rv_CurTimeSec = 6, rv_Count = 1\<rparr>, Key = ''b''\<rparr>] []
     = [\<lparr>Heartbeats = [Some \<lparr>ih_InstanceId = ''a''\<rparr>, Some \<lparr>ih_InstanceId = ''b''\<rparr>]\<rparr>]
   \<and> RemoteBeatRecordCache_Put (recording_cache None)
       [\<lparr>wr_Record = \<lparr>rv_Server = ''s1'', rv_CurTimeSec = 5, rv_Count = 9\<rparr>, Key = ''a''\<rparr>,
        \<lparr>wr_Record = \<lparr>rv_Server = ''s2'', rv_CurTimeSec = 6, rv_Count = 1\<rparr>, Key = ''b''\<rparr>] []
     = RemoteBeatRecordCache_Put (recording_cache None)
       [\<lparr>wr_Record = RecordValue_zero, Key = ''a''\<rparr>,
        \<lparr>wr_Record = RecordValue_zero, Key = ''b''\<rparr>] []"
proof -
  let ?rs = "[\<lparr>wr_Record = \<lparr>rv_Server = ''s1'', rv_CurTimeSec = 5, rv_Count = 9\<rparr>, Key = ''a''\<rparr>,
        \<lparr>wr_Record = \<lparr>rv_Server = ''s2'', rv_CurTimeSec = 6, rv_Count = 1\<rparr>, Key = ''b''\<rparr>]"
  let ?rs' = "[\<lparr>wr_Record = RecordValue_zero, Key = ''a''\<rparr>,
        \<lparr>wr_Record = RecordValue_zero, Key = ''b''\<rparr>]"
  note T = RemoteBeatRecordCache_Put_keys_only [of "recording_cache None" ?rs "[]" None "[]" ?rs']
  have k: "map Key ?rs = map Key ?rs'"
    by simp
  from T [THEN conjunct2, THEN conjunct1]
  have 1: "RemoteBeatRecordCache_Put (recording_cache None) ?rs []
     = [\<lparr>Heartbeats = [Some \<lparr>ih_InstanceId = ''a''\<rparr>, Some \<lparr>ih_InstanceId = ''b''\<rparr>]\<rparr>]"
    by simp
  from T [THEN conjunct2, THEN conjunct2, THEN mp, OF k]
  have 2: "RemoteBeatRecordCache_Put (recording_cache None) ?rs []
     = RemoteBeatRecordCache_Put (recording_cache None) ?rs' []" .
  from 1 2 show ?thesis by (rule conjI)
qed

end
